theory Spec2Isabelle
  imports
    Main
    "HOL-Library.Sublist"
    "HOL-Library.Char_ord"
    "HOL-Library.List_Lexorder"
    "HOL-Library.AList"
begin

section \<open>Python strings and paths\<close>

text \<open>
  A Python \<open>str\<close> is modelled as a \<open>string\<close>, a list of characters that stand for the
  code points below 256; \<open>sorted\<close> on a list of \<open>str\<close> compares code point by code point,
  which is the lexicographic order of \<open>HOL-Library.List_Lexorder\<close> over the character order
  of \<open>HOL-Library.Char_ord\<close>. Case mapping and whitespace are those of \<open>str.lower\<close> and
  \<open>str.isspace\<close> on these code points.
\<close>

definition startswith :: "string \<Rightarrow> string \<Rightarrow> bool" where
  "startswith s p = prefix p s"

definition endswith :: "string \<Rightarrow> string \<Rightarrow> bool" where
  "endswith s p = suffix p s"

text \<open>\<open>p in s\<close> on strings: \<open>p\<close> occurs contiguously in \<open>s\<close>.\<close>

definition str_in :: "string \<Rightarrow> string \<Rightarrow> bool" where
  "str_in p s = sublist p s"

text \<open>
  The upper-case letters below 256 are \<open>A\<close> to \<open>Z\<close> and \<open>0xC0\<close> to \<open>0xDE\<close> without the
  multiplication sign \<open>0xD7\<close>; each becomes lower-case by adding 32, that is by setting
  bit 5.
\<close>

definition lower_char :: "char \<Rightarrow> char" where
  "lower_char c =
     (if (CHR ''A'' \<le> c \<and> c \<le> CHR ''Z'') \<or> (CHR 0xC0 \<le> c \<and> c \<le> CHR 0xDE \<and> c \<noteq> CHR 0xD7)
      then Char (digit0 c) (digit1 c) (digit2 c) (digit3 c) (digit4 c) True (digit6 c) (digit7 c)
      else c)"

definition lower :: "string \<Rightarrow> string" where
  "lower s = map lower_char s"

definition is_space :: "char \<Rightarrow> bool" where
  "is_space c =
     (c = CHR '' '' \<or> (CHR 0x09 \<le> c \<and> c \<le> CHR 0x0D) \<or> (CHR 0x1C \<le> c \<and> c \<le> CHR 0x1F)
      \<or> c = CHR 0x85 \<or> c = CHR 0xA0)"

definition strip :: "string \<Rightarrow> string" where
  "strip s = rev (dropWhile is_space (rev (dropWhile is_space s)))"

text \<open>
  \<open>s.replace(old, new)\<close>: a scan from the left that replaces every non-overlapping
  occurrence of \<open>old\<close>; the text produced by a replacement is not scanned again. With an
  empty \<open>old\<close>, Python puts \<open>new\<close> before every character and at the end.
\<close>

function str_replace :: "string \<Rightarrow> string \<Rightarrow> string \<Rightarrow> string" where
  "str_replace old new [] = (if old = [] then new else [])"
| "str_replace old new (c # cs) =
     (if old = [] then new @ c # str_replace old new cs
      else if prefix old (c # cs) then new @ str_replace old new (drop (length old) (c # cs))
      else c # str_replace old new cs)"
  by pat_completeness auto
termination
  by (relation "measure (\<lambda>(old, new, s). length s)") auto

text \<open>\<open>s.split()\<close>: the maximal runs of characters that are not whitespace.\<close>

fun split_ws :: "string \<Rightarrow> string \<Rightarrow> string list" where
  "split_ws acc [] = (if acc = [] then [] else [acc])"
| "split_ws acc (c # cs) =
     (if is_space c then (if acc = [] then split_ws [] cs else acc # split_ws [] cs)
      else split_ws (acc @ [c]) cs)"

definition split :: "string \<Rightarrow> string list" where
  "split s = split_ws [] s"

text \<open>\<open>os.path.join(a, b)\<close> on a POSIX system.\<close>

definition path_join :: "string \<Rightarrow> string \<Rightarrow> string" where
  "path_join a b =
     (if startswith b ''/'' then b
      else if a = [] \<or> endswith a ''/'' then a @ b
      else a @ ''/'' @ b)"

section \<open>Exceptions, log messages and observable events\<close>

text \<open>
  \<open>CalledProcessError\<close> carries the exit status and the command, which its text shows
  (\<open>Command '...' returned non-zero exit status n.\<close>).
\<close>

datatype py_exc =
    CalledProcessError int "string list"
  | TimeoutExpired
  | FileNotFoundError
  | IsADirectoryError
  | ValueError
  | OverflowError
  | OtherException string

text \<open>
  The value of a call: it returns, it raises, or it never returns (it waits for a
  subprocess that never exits).
\<close>

datatype 'a result = Return 'a | Raise py_exc | Hang

text \<open>One constructor for each \<open>print\<close> of \<open>recorder.py\<close>, with the values it formats.\<close>

datatype msg =
    Using_authenticated_url string
  | Checking_availability int int
  | Stream_available string
  | Stream_might_be_empty string string
  | Discovery_timed_out
  | Error_checking_stream py_exc
  | Stream_did_not_become_available
  | Starting_recording string
  | Stderr_line string
  | GStreamer_error py_exc
  | Waiting_for_stream string
  | Stopping_recording string
  | Merging_segments
  | Merged_saved string
  | Merging_error py_exc

text \<open>
  What a run does that can be observed from outside: the lines it prints, the external
  tools it invokes, its sleeps, the worker threads it starts, and the text a child process
  writes to the standard error stream it inherits.
\<close>

datatype event =
    Print msg
  | Run_discoverer "string list"
  | Sleep int
  | Popen "string list"
  | Run_ffmpeg "string list"
  | Child_stderr string
  | Thread_start
  | Thread_died py_exc

text \<open>
  \<open>time.sleep(secs)\<close> on an integer: the length is first converted to nanoseconds in a
  signed 64-bit integer, which raises \<open>OverflowError\<close> when it does not fit; a negative
  length raises \<open>ValueError\<close>; otherwise the call sleeps and returns.
\<close>

definition time_sleep :: "int \<Rightarrow> unit result" where
  "time_sleep secs =
     (if secs * 1000000000 > 2 ^ 63 - 1 \<or> secs * 1000000000 < - (2 ^ 63) then Raise OverflowError
      else if secs < 0 then Raise ValueError
      else Return ())"

section \<open>\<open>StreamRecorder._build_auth_url\<close>\<close>

text \<open>Truthiness of an optional string: \<open>None\<close> and the empty string are false.\<close>

fun truthy :: "string option \<Rightarrow> bool" where
  "truthy None = False"
| "truthy (Some s) = (s \<noteq> [])"

fun build_auth_url ::
  "string \<Rightarrow> string option \<Rightarrow> string option \<Rightarrow> event list \<Rightarrow> string \<times> event list" where
  "build_auth_url url (Some username) (Some password) tr =
     (if truthy (Some username) \<and> truthy (Some password) then
        (let parsed_url =
           str_replace ''rtsp://'' (''rtsp://'' @ username @ '':'' @ password @ ''@'') url
         in (parsed_url, tr @ [Print (Using_authenticated_url parsed_url)]))
      else (url, tr))"
| "build_auth_url url username password tr = (url, tr)"

section \<open>The output directory\<close>

text \<open>
  The output directory is a finite map from name to entry, kept as an association list;
  an entry is a regular file with its content or a subdirectory. A path
  \<open>os.path.join(output_dir, name)\<close> denotes the entry \<open>name\<close>. \<open>os.listdir\<close> gives every
  name once, files and subdirectories alike, in no particular order.
\<close>

datatype entry = File string | Subdir

type_synonym directory = "(string \<times> entry) list"

definition listdir :: "directory \<Rightarrow> string list" where
  "listdir d = remdups (map fst d)"

text \<open>
  \<open>open(path, "w")\<close>, the writes and the close: the file is created or replaced. The
  manifest path \<open>file_list.txt\<close>, the only path the recorder opens, is taken not to name
  a subdirectory.
\<close>

definition write_file :: "string \<Rightarrow> string \<Rightarrow> directory \<Rightarrow> directory" where
  "write_file name content d = AList.update name (File content) d"

text \<open>
  \<open>os.remove\<close> deletes a regular file; it raises \<open>FileNotFoundError\<close> on a missing name
  and \<open>IsADirectoryError\<close> on a subdirectory.
\<close>

definition os_remove :: "string \<Rightarrow> directory \<Rightarrow> directory result" where
  "os_remove name d =
     (case map_of d name of
        None \<Rightarrow> Raise FileNotFoundError
      | Some Subdir \<Rightarrow> Raise IsADirectoryError
      | Some (File content) \<Rightarrow> Return (AList.delete name d))"

section \<open>The environment: external tools and the clock\<close>

text \<open>
  One run of \<open>gst-discoverer-1.0\<close> under \<open>subprocess.run(..., timeout=5)\<close>: it completes
  with an exit status and its decoded output and error text, it times out, or an exception
  is raised inside the \<open>try\<close> block (by the invocation or by decoding its output).
\<close>

datatype probe_outcome =
    Completed int string string
  | Timed_out
  | Failed py_exc

text \<open>
  The capture pipeline under \<open>subprocess.Popen\<close>: the launch raises, or the process runs,
  writes lines to its error stream and exits with a status, or it never exits.
\<close>

datatype capture_outcome =
    Popen_raised py_exc
  | Exited "string list" int
  | Never_exits "string list"

text \<open>
  The concatenation tool under \<open>subprocess.run\<close>: it exits with a status, having written
  diagnostic text to the inherited error stream, and the directory is then in some state
  (what the tool wrote, and what anything else wrote there in the meantime); or the launch
  raises; or it never exits.
\<close>

datatype tool_outcome =
    Tool_exited int string directory
  | Tool_raised py_exc
  | Tool_never_exits

record env =
  discoverer :: "nat \<Rightarrow> string list \<Rightarrow> probe_outcome"
  now :: string
  capture :: "string list \<Rightarrow> capture_outcome"
  ffmpeg :: "string list \<Rightarrow> directory \<Rightarrow> tool_outcome"

text \<open>
  \<open>discoverer env k\<close> is the outcome of the \<open>k\<close>-th run of the inspection tool since the
  world began (counted in \<open>discoverer_runs\<close>); \<open>now env\<close> is the formatted timestamp.
\<close>

record world =
  trace :: "event list"
  dir :: directory
  discoverer_runs :: nat

definition emit :: "event \<Rightarrow> world \<Rightarrow> world" where
  "emit e w = w\<lparr>trace := trace w @ [e]\<rparr>"

section \<open>\<open>StreamRecorder\<close>\<close>

text \<open>
  The worker thread of a recorder has not run yet (\<open>Pending\<close>), has ended (\<open>Finished\<close>),
  or waits for ever for a capture process that never exits (\<open>Stuck\<close>).
\<close>

datatype thread_status = Pending | Finished | Stuck

record recorder =
  stream_url :: string
  output_dir :: string
  segment_time :: int
  retry_interval :: int
  max_retries :: int
  recording :: bool
  thread :: "thread_status option"

text \<open>\<open>file_list_path\<close> is set once, by \<open>__init__\<close>, from \<open>output_dir\<close>.\<close>

definition file_list_path :: "recorder \<Rightarrow> string" where
  "file_list_path r = path_join (output_dir r) ''file_list.txt''"

definition init ::
  "string \<Rightarrow> string \<Rightarrow> int \<Rightarrow> int \<Rightarrow> int \<Rightarrow> string option \<Rightarrow> string option \<Rightarrow> world
     \<Rightarrow> recorder \<times> world" where
  "init url out seg_time interval retries username password w =
     (case build_auth_url url username password (trace w) of
        (u, tr) \<Rightarrow>
          (\<lparr>stream_url = u, output_dir = out, segment_time = seg_time,
            retry_interval = interval, max_retries = retries,
            recording = False, thread = None\<rparr>,
           w\<lparr>trace := tr\<rparr>))"

subsection \<open>\<open>_is_rtsp_available\<close>\<close>

text \<open>
  The body of the \<open>try\<close> statement on one outcome: whether the attempt succeeded, and the
  line it prints.
\<close>

fun attempt_report :: "probe_outcome \<Rightarrow> bool \<times> msg" where
  "attempt_report (Completed returncode out err) =
     (let output = strip out; error_output = strip err in
      if returncode = 0 \<and> str_in ''video'' (lower output)
      then (True, Stream_available output)
      else (False, Stream_might_be_empty output error_output))"
| "attempt_report Timed_out = (False, Discovery_timed_out)"
| "attempt_report (Failed e) = (False, Error_checking_stream e)"

definition discoverer_command :: "recorder \<Rightarrow> string list" where
  "discoverer_command r = [''gst-discoverer-1.0'', stream_url r]"

text \<open>
  The \<open>for\<close> loop, with the attempt number and the number of iterations left.
  \<open>time.sleep\<close> is outside the \<open>try\<close>: an exception it raises leaves the loop.
\<close>

fun attempts :: "env \<Rightarrow> recorder \<Rightarrow> int \<Rightarrow> nat \<Rightarrow> world \<Rightarrow> bool result \<times> world" where
  "attempts env r attempt 0 w =
     (Return False, emit (Print Stream_did_not_become_available) w)"
| "attempts env r attempt (Suc k) w =
     (let w1 = emit (Print (Checking_availability attempt (max_retries r))) w;
          outcome = discoverer env (discoverer_runs w1) (discoverer_command r);
          w2 = (emit (Run_discoverer (discoverer_command r)) w1)
                 \<lparr>discoverer_runs := Suc (discoverer_runs w1)\<rparr>;
          w3 = emit (Print (snd (attempt_report outcome))) w2
      in if fst (attempt_report outcome) then (Return True, w3)
         else (case time_sleep (retry_interval r) of
                 Return u \<Rightarrow> attempts env r (attempt + 1) k (emit (Sleep (retry_interval r)) w3)
               | Raise e \<Rightarrow> (Raise e, w3)
               | Hang \<Rightarrow> (Hang, w3)))"

definition is_rtsp_available :: "env \<Rightarrow> recorder \<Rightarrow> world \<Rightarrow> bool result \<times> world" where
  "is_rtsp_available env r w = attempts env r 1 (nat (max_retries r)) w"

subsection \<open>\<open>_record\<close>\<close>

definition recording_name :: "string \<Rightarrow> string" where
  "recording_name timestamp = ''recording_'' @ timestamp @ ''.mkv''"

definition gst_command_str :: "string \<Rightarrow> string \<Rightarrow> string" where
  "gst_command_str url output_file =
     ''gst-launch-1.0 rtspsrc location='' @ url @ '' ! decodebin ''
     @ ''! videoconvert ! video/x-raw''
     @ ''! x264enc tune=zerolatency speed-preset=ultrafast bitrate=2048 ''
     @ ''! h264parse ''
     @ ''! matroskamux ''
     @ ''! filesink location='' @ output_file @ '' sync=1 async=1''"

text \<open>The loop that prints the lines of the capture process's error stream.\<close>

definition stream_logs :: "string list \<Rightarrow> world \<Rightarrow> world" where
  "stream_logs lines w = foldl (\<lambda>w' line. emit (Print (Stderr_line line)) w') w lines"

text \<open>
  The \<open>try\<close> statement around the capture process. \<open>Popen\<close> and \<open>wait\<close> give the exit
  status back and do not raise on a non-zero one; the handler runs only when a
  \<open>CalledProcessError\<close> is raised, and every other exception leaves \<open>_record\<close>.
\<close>

definition run_capture :: "env \<Rightarrow> recorder \<Rightarrow> string \<Rightarrow> world \<Rightarrow> unit result \<times> recorder \<times> world" where
  "run_capture env r output_file w =
     (let cmd = split (gst_command_str (stream_url r) output_file);
          w1 = emit (Popen cmd) (emit (Print (Starting_recording output_file)) w)
      in case capture env cmd of
           Popen_raised e \<Rightarrow>
             (case e of
                CalledProcessError returncode c \<Rightarrow>
                  (Return (), r\<lparr>recording := False\<rparr>, emit (Print (GStreamer_error e)) w1)
              | _ \<Rightarrow> (Raise e, r, w1))
         | Exited lines returncode \<Rightarrow> (Return (), r, stream_logs lines w1)
         | Never_exits lines \<Rightarrow> (Hang, r, stream_logs lines w1))"

definition record_body :: "env \<Rightarrow> recorder \<Rightarrow> world \<Rightarrow> unit result \<times> recorder \<times> world" where
  "record_body env r w =
     (case is_rtsp_available env r w of
        (Return available, w1) \<Rightarrow>
          (if \<not> available then (Return (), r, w1)
           else run_capture env r (path_join (output_dir r) (recording_name (now env))) w1)
      | (Raise e, w1) \<Rightarrow> (Raise e, r, w1)
      | (Hang, w1) \<Rightarrow> (Hang, r, w1))"

subsection \<open>\<open>merge_segments\<close>\<close>

definition is_segment :: "string \<Rightarrow> bool" where
  "is_segment file = (startswith file ''segment_'' \<and> endswith file ''.mp4'')"

definition manifest_line :: "string \<Rightarrow> string \<Rightarrow> string" where
  "manifest_line out file = ''file '' @ [CHR 0x27] @ path_join out file @ [CHR 0x27, CHR 0x0A]"

text \<open>The loop that writes the manifest, over the sorted listing.\<close>

fun manifest_lines :: "string \<Rightarrow> string list \<Rightarrow> string" where
  "manifest_lines out [] = []"
| "manifest_lines out (file # files) =
     (if is_segment file then manifest_line out file @ manifest_lines out files
      else manifest_lines out files)"

text \<open>The loop that deletes the segment files, over the sorted listing.\<close>

fun remove_segments :: "string list \<Rightarrow> directory \<Rightarrow> unit result \<times> directory" where
  "remove_segments [] d = (Return (), d)"
| "remove_segments (file # files) d =
     (if is_segment file then
        (case os_remove file d of
           Return d1 \<Rightarrow> remove_segments files d1
         | Raise e \<Rightarrow> (Raise e, d)
         | Hang \<Rightarrow> (Hang, d))
      else remove_segments files d)"

definition merged_output :: "recorder \<Rightarrow> string" where
  "merged_output r = path_join (output_dir r) ''final_recording.mp4''"

definition merge_command :: "recorder \<Rightarrow> string list" where
  "merge_command r =
     [''ffmpeg'', ''-f'', ''concat'', ''-safe'', ''0'', ''-i'', file_list_path r,
      ''-c'', ''copy'', merged_output r]"

text \<open>
  The directory once the manifest is written and closed. The manifest is created before
  the directory is listed, so the listing contains it.
\<close>

definition manifest_content :: "recorder \<Rightarrow> directory \<Rightarrow> string" where
  "manifest_content r d =
     manifest_lines (output_dir r) (sort (listdir (write_file ''file_list.txt'' [] d)))"

definition with_manifest :: "recorder \<Rightarrow> directory \<Rightarrow> directory" where
  "with_manifest r d =
     write_file ''file_list.txt'' (manifest_content r d) (write_file ''file_list.txt'' [] d)"

text \<open>
  \<open>merge_segments\<close> has no \<open>return\<close> statement: its value is \<open>None\<close> whenever it returns.
  \<open>subprocess.run(..., check=True)\<close> raises \<open>CalledProcessError\<close> on a non-zero exit status;
  the handler catches that exception only.
\<close>

definition merge_segments :: "env \<Rightarrow> recorder \<Rightarrow> world \<Rightarrow> string option result \<times> world" where
  "merge_segments env r w =
     (let w1 = emit (Print Merging_segments) w;
          d2 = with_manifest r (dir w1);
          w2 = emit (Run_ffmpeg (merge_command r)) (w1\<lparr>dir := d2\<rparr>)
      in case ffmpeg env (merge_command r) d2 of
           Tool_exited returncode diagnostics d3 \<Rightarrow>
             (let w3 = (emit (Child_stderr diagnostics) w2)\<lparr>dir := d3\<rparr> in
              if returncode \<noteq> 0 then
                (Return None,
                 emit (Print (Merging_error (CalledProcessError returncode (merge_command r)))) w3)
              else
                (let w4 = emit (Print (Merged_saved (merged_output r))) w3 in
                 case remove_segments (sort (listdir (dir w4))) (dir w4) of
                   (Return u, d4) \<Rightarrow> (Return None, w4\<lparr>dir := d4\<rparr>)
                 | (Raise e, d4) \<Rightarrow> (Raise e, w4\<lparr>dir := d4\<rparr>)
                 | (Hang, d4) \<Rightarrow> (Hang, w4\<lparr>dir := d4\<rparr>)))
         | Tool_raised e \<Rightarrow>
             (case e of
                CalledProcessError returncode c \<Rightarrow> (Return None, emit (Print (Merging_error e)) w2)
              | _ \<Rightarrow> (Raise e, w2))
         | Tool_never_exits \<Rightarrow> (Hang, w2))"

subsection \<open>\<open>start\<close>, the worker thread, \<open>stop\<close>\<close>

definition start :: "recorder \<Rightarrow> world \<Rightarrow> recorder \<times> world" where
  "start r w =
     (if \<not> recording r then
        (r\<lparr>recording := True, thread := Some Pending\<rparr>,
         emit Thread_start (emit (Print (Waiting_for_stream (stream_url r))) w))
      else (r, w))"

text \<open>
  The worker runs \<open>_record\<close> at some moment after \<open>start\<close>: \<open>run_thread\<close> is that moment.
  An exception that leaves \<open>_record\<close> ends the thread. A thread is started only while
  \<open>recording\<close> is false, that is before any start, after a \<open>stop\<close> (which joined the
  previous thread) or after the worker's own handler: never while another one is pending.
\<close>

definition run_thread :: "env \<Rightarrow> recorder \<Rightarrow> world \<Rightarrow> recorder \<times> world" where
  "run_thread env r w =
     (case thread r of
        Some Pending \<Rightarrow>
          (case record_body env r w of
             (Return u, r1, w1) \<Rightarrow> (r1\<lparr>thread := Some Finished\<rparr>, w1)
           | (Raise e, r1, w1) \<Rightarrow> (r1\<lparr>thread := Some Finished\<rparr>, emit (Thread_died e) w1)
           | (Hang, r1, w1) \<Rightarrow> (r1\<lparr>thread := Some Stuck\<rparr>, w1))
      | _ \<Rightarrow> (r, w))"

text \<open>\<open>thread.join()\<close>: the worker runs now if it has not yet, and the caller waits for it.\<close>

definition join :: "env \<Rightarrow> recorder \<Rightarrow> world \<Rightarrow> unit result \<times> recorder \<times> world" where
  "join env r w =
     (case run_thread env r w of
        (r1, w1) \<Rightarrow> (if thread r1 = Some Stuck then Hang else Return (), r1, w1))"

definition stop :: "env \<Rightarrow> recorder \<Rightarrow> world \<Rightarrow> unit result \<times> recorder \<times> world" where
  "stop env r w =
     (if recording r then
        (let w1 = emit (Print (Stopping_recording (stream_url r))) w;
             r1 = r\<lparr>recording := False\<rparr>
         in case (if thread r1 \<noteq> None then join env r1 w1 else (Return (), r1, w1)) of
              (Return u, r2, w2) \<Rightarrow>
                (case merge_segments env r2 w2 of
                   (Return v, w3) \<Rightarrow> (Return (), r2, w3)
                 | (Raise e, w3) \<Rightarrow> (Raise e, r2, w3)
                 | (Hang, w3) \<Rightarrow> (Hang, r2, w3))
            | (Raise e, r2, w2) \<Rightarrow> (Raise e, r2, w2)
            | (Hang, r2, w2) \<Rightarrow> (Hang, r2, w2))
      else (Return (), r, w))"

section \<open>Descriptions used in the statements, and example sessions\<close>

text \<open>
  What the \<open>i\<close>-th failed attempt of a probe leaves in the trace, for a probe that began
  at attempt number \<open>a\<close> when the inspection tool had run \<open>runs\<close> times: the attempt line,
  the invocation, the line the outcome prints, and the sleep.
\<close>

definition failed_attempt :: "env \<Rightarrow> recorder \<Rightarrow> nat \<Rightarrow> int \<Rightarrow> nat \<Rightarrow> event list" where
  "failed_attempt env r runs a i =
     [Print (Checking_availability (a + int i) (max_retries r)),
      Run_discoverer (discoverer_command r),
      Print (snd (attempt_report (discoverer env (runs + i) (discoverer_command r)))),
      Sleep (retry_interval r)]"

definition world0 :: world where
  "world0 = \<lparr>trace = [], dir = [], discoverer_runs = 0\<rparr>"

text \<open>
  A source that is never reachable: the inspection tool exits with status 1, then times
  out, then raises, and from then on finds no video track. The concatenation tool fails.
\<close>

definition env_unreachable :: env where
  "env_unreachable =
     \<lparr>discoverer = (\<lambda>k cmd.
          if k = 0 then Completed 1 [] ''Connection refused''
          else if k = 1 then Timed_out
          else if k = 2 then Failed (OtherException ''boom'')
          else Completed 0 ''audio: mp3'' []),
      now = ''2024-05-01_10-00-00'',
      capture = (\<lambda>cmd. Exited [] 0),
      ffmpeg = (\<lambda>args d. Tool_exited 1 ''file_list.txt: Invalid data'' d)\<rparr>"

definition cam :: recorder where
  "cam = fst (init ''rtsp://cam/live'' ''rec'' 600 1 3 None None world0)"

text \<open>
  A source that answers at the first attempt, a capture pipeline that prints one line and
  exits with status 1, and a concatenation tool that succeeds and writes only its output.
\<close>

definition env_reachable :: env where
  "env_reachable =
     \<lparr>discoverer = (\<lambda>k cmd. Completed 0 ''Video: H.264'' []),
      now = ''2024-05-01_10-00-00'',
      capture = (\<lambda>cmd. Exited [''ERROR: pipeline stopped''] 1),
      ffmpeg = (\<lambda>args d. Tool_exited 0 [] (write_file ''final_recording.mp4'' ''abbccc'' d))\<rparr>"


text \<open>An output directory with three segments, a recording of the capture pipeline and a note.\<close>

definition three_segments :: world where
  "three_segments =
     \<lparr>trace = [],
      dir = [(''segment_002.mp4'', File ''bb''), (''notes.txt'', File ''n''),
             (''segment_003.mp4'', File ''ccc''),
             (''recording_2024-05-01_10-00-00.mkv'', File ''mkv''),
             (''segment_001.mp4'', File ''a'')],
      discoverer_runs = 0\<rparr>"

text \<open>\<open>start()\<close> and then the worker, on the unreachable and on the reachable source.\<close>

definition failed_session :: "recorder \<times> world" where
  "failed_session = (case start cam world0 of (r1, w1) \<Rightarrow> run_thread env_unreachable r1 w1)"

definition capture_session :: "recorder \<times> world" where
  "capture_session = (case start cam world0 of (r1, w1) \<Rightarrow> run_thread env_reachable r1 w1)"


section \<open>Properties of the credential embedding\<close>

lemma str_replace_absent:
  "old \<noteq> [] \<Longrightarrow> \<not> sublist old s \<Longrightarrow> str_replace old new s = s"
  by (induction s) (auto simp: sublist_Cons_right)

lemma str_replace_at_prefix:
  "old \<noteq> [] \<Longrightarrow> str_replace old new (old @ s) = new @ str_replace old new s"
  by (cases old) auto

text \<open>
  C8. For a source URL \<open>rtsp://\<close> followed by a host and path \<open>rest\<close> in which the scheme
  marker \<open>rtsp://\<close> does not occur again, and a user name \<open>u\<close> and a password \<open>p\<close> that
  are both supplied (not empty), the constructed URL is \<open>rtsp://u:p@rest\<close>, and that URL
  is printed; with no credentials (\<open>None\<close> and \<open>None\<close>) the URL comes back unchanged and
  nothing is printed.
\<close>

theorem build_auth_url_embeds:
  assumes "u \<noteq> []" and "p \<noteq> []" and "\<not> str_in ''rtsp://'' rest"
  shows "build_auth_url (''rtsp://'' @ rest) (Some u) (Some p) tr =
           (''rtsp://'' @ u @ '':'' @ p @ ''@'' @ rest,
            tr @ [Print (Using_authenticated_url (''rtsp://'' @ u @ '':'' @ p @ ''@'' @ rest))])
         \<and> build_auth_url url None None tr = (url, tr)"
proof -
  have "str_replace ''rtsp://'' new (''rtsp://'' @ rest) = new @ rest" for new
    using assms(3) str_replace_at_prefix [of "''rtsp://''" new rest]
    by (simp add: str_replace_absent str_in_def)
  with assms show ?thesis by (simp add: Let_def)
qed

theorem build_auth_url_embeds_witness:
  "build_auth_url ''rtsp://host/path'' (Some ''u'') (Some ''p'') [] =
     (''rtsp://u:p@host/path'', [Print (Using_authenticated_url ''rtsp://u:p@host/path'')])
   \<and> build_auth_url ''rtsp://host/path'' None None [] = (''rtsp://host/path'', [])"
  using build_auth_url_embeds [of "''u''" "''p''" "''host/path''" "[]" "''rtsp://host/path''"]
  by (simp add: str_in_def sublist_code Let_def)

text \<open>
  C9. Embedding needs both credentials: when the user name or the password is \<open>None\<close> or
  the empty string, \<open>_build_auth_url\<close> returns the URL it was given, whatever the other
  credential is, and prints nothing.
\<close>

theorem build_auth_url_requires_both:
  "username = None \<or> username = Some [] \<or> password = None \<or> password = Some [] \<Longrightarrow>
     build_auth_url url username password tr = (url, tr)"
  by (cases username; cases password) auto

theorem build_auth_url_requires_both_witness:
  "build_auth_url ''rtsp://host/path'' (Some ''admin'') (Some []) [] = (''rtsp://host/path'', [])"
  using build_auth_url_requires_both [of "Some ''admin''" "Some []" "''rtsp://host/path''" "[]"]
  by simp

section \<open>Properties of the availability probe\<close>

lemma failed_attempt_shift:
  "failed_attempt env r (Suc runs) (a + 1) = (\<lambda>i. failed_attempt env r runs a (Suc i))"
  by (rule ext) (simp add: failed_attempt_def add.assoc)

text \<open>
  A non-zero exit status, a missing video indicator, a timeout and an exception are each a
  failed attempt.
\<close>

lemma attempt_report_failures:
  "returncode \<noteq> 0 \<Longrightarrow> \<not> fst (attempt_report (Completed returncode out err))"
  "\<not> str_in ''video'' (lower (strip out)) \<Longrightarrow> \<not> fst (attempt_report (Completed returncode out err))"
  "\<not> fst (attempt_report Timed_out)"
  "\<not> fst (attempt_report (Failed e))"
  by (simp_all add: Let_def)


lemma attempts_all_fail:
  assumes "time_sleep (retry_interval r) = Return ()"
  shows "\<forall>j<k. \<not> fst (attempt_report
                         (discoverer env (discoverer_runs w + j) (discoverer_command r)))
     \<Longrightarrow> attempts env r a k w =
       (Return False,
        w\<lparr>trace := trace w @ concat (map (failed_attempt env r (discoverer_runs w) a) [0..<k])
                     @ [Print Stream_did_not_become_available],
          discoverer_runs := discoverer_runs w + k\<rparr>)"
proof (induction k arbitrary: a w)
  case 0
  show ?case by (simp add: emit_def)
next
  case (Suc k)
  let ?o = "discoverer env (discoverer_runs w) (discoverer_command r)"
  let ?w' = "emit (Sleep (retry_interval r)) (emit (Print (snd (attempt_report ?o)))
      ((emit (Run_discoverer (discoverer_command r))
          (emit (Print (Checking_availability a (max_retries r))) w))
         \<lparr>discoverer_runs := Suc (discoverer_runs w)\<rparr>))"
  have fail0: "\<not> fst (attempt_report ?o)"
    using Suc.prems by (metis add.right_neutral zero_less_Suc)
  have runs': "discoverer_runs ?w' = Suc (discoverer_runs w)"
    by (simp add: emit_def)
  have rest: "\<forall>j<k. \<not> fst (attempt_report
                            (discoverer env (discoverer_runs ?w' + j) (discoverer_command r)))"
    using Suc.prems runs' by (metis Suc_less_eq add_Suc_shift)
  have step: "attempts env r a (Suc k) w = attempts env r (a + 1) k ?w'"
    using fail0 assms by (simp add: Let_def emit_def)
  have upt: "[0..<Suc k] = 0 # map Suc [0..<k]"
    by (simp add: upt_conv_Cons map_Suc_upt del: upt_Suc)
  have tr: "trace ?w' = trace w @ failed_attempt env r (discoverer_runs w) a 0"
    by (simp add: emit_def failed_attempt_def)
  have upd: "?w'\<lparr>trace := t, discoverer_runs := m\<rparr> = w\<lparr>trace := t, discoverer_runs := m\<rparr>"
    for t m
    by (simp add: emit_def)
  show ?case
    unfolding step Suc.IH [OF rest] upt
    by (simp add: tr runs' failed_attempt_shift comp_def upd)
qed

lemma probe_all_fail:
  assumes "max_retries r = int n" and "time_sleep (retry_interval r) = Return ()"
    and "\<forall>j<n. \<not> fst (attempt_report
                         (discoverer env (discoverer_runs w + j) (discoverer_command r)))"
  shows "is_rtsp_available env r w =
           (Return False,
            w\<lparr>trace := trace w @ concat (map (failed_attempt env r (discoverer_runs w) 1) [0..<n])
                         @ [Print Stream_did_not_become_available],
              discoverer_runs := discoverer_runs w + n\<rparr>)"
  using attempts_all_fail [OF assms(2), of n env w 1] assms(1,3)
  by (simp add: is_rtsp_available_def)




section \<open>Properties of the session life cycle\<close>

lemma start_when_recording: "recording r \<Longrightarrow> start r w = (r, w)"
  by (simp add: start_def)

lemma stop_when_idle: "\<not> recording r \<Longrightarrow> stop env r w = (Return (), r, w)"
  by (simp add: stop_def)

lemma run_capture_exited:
  "run_capture (env\<lparr>capture := (\<lambda>cmd. Exited lines returncode)\<rparr>) r output_file w =
     (Return (), r,
      stream_logs lines
        (emit (Popen (split (gst_command_str (stream_url r) output_file)))
           (emit (Print (Starting_recording output_file)) w)))"
  by (simp add: run_capture_def Let_def)

text \<open>
  C4 (as the code has it). On a session that is idle (\<open>recording\<close> false), a second
  \<open>start()\<close> right after the first changes nothing: the recorder and the world are the
  ones the first call left, with \<open>recording\<close> set and one pending worker; the trace holds
  the waiting line and one thread start of the first call, and no line from the second.
\<close>

theorem second_start_is_silent:
  "\<not> recording r \<Longrightarrow>
     (case start r w of (r1, w1) \<Rightarrow>
        start r1 w1 = (r1, w1) \<and> recording r1 \<and> thread r1 = Some Pending
        \<and> trace w1 = trace w @ [Print (Waiting_for_stream (stream_url r)), Thread_start])"
  by (simp add: start_def emit_def)

theorem second_start_is_silent_witness:
  "(case start cam world0 of (r1, w1) \<Rightarrow>
        start r1 w1 = (r1, w1) \<and> recording r1 \<and> thread r1 = Some Pending
        \<and> trace w1 = trace world0 @ [Print (Waiting_for_stream (stream_url cam)), Thread_start])"
proof -
  have h: "\<not> recording cam" by (simp add: cam_def init_def)
  show ?thesis using second_start_is_silent [OF h, of world0] by simp
qed

text \<open>
  Against C4 as stated: after two calls of \<open>start()\<close> on the example recorder the trace is
  the one of the first call; the second call logs no duplicate-start warning.
\<close>

theorem second_start_logs_nothing:
  "trace (snd (case start cam world0 of (r1, w1) \<Rightarrow> start r1 w1)) =
     [Print (Waiting_for_stream ''rtsp://cam/live''), Thread_start]"
  by (simp add: start_def emit_def cam_def init_def world0_def)

text \<open>
  What the worker does after \<open>start()\<close> when the probe fails: on a session that is idle,
  with \<open>max_retries = n\<close>, a retry interval that \<open>time.sleep\<close> accepts and \<open>n\<close> failing runs
  of the inspection tool, it ends with the output directory unchanged and a trace of the
  waiting line, the thread start, the \<open>n\<close> failed attempts and the abort line. The capture
  pipeline is never launched, and the \<open>recording\<close> flag that \<open>start()\<close> set is still set.
\<close>

lemma failed_probe_worker:
  assumes "\<not> recording r" and "max_retries r = int n"
    and "time_sleep (retry_interval r) = Return ()"
    and "\<forall>j<n. \<not> fst (attempt_report
                         (discoverer env (discoverer_runs w + j) (discoverer_command r)))"
  shows "case start r w of (r1, w1) \<Rightarrow>
            case run_thread env r1 w1 of (r2, w2) \<Rightarrow>
              recording r2 \<and> thread r2 = Some Finished \<and> dir w2 = dir w
              \<and> trace w2 = trace w @ [Print (Waiting_for_stream (stream_url r)), Thread_start]
                  @ concat (map (failed_attempt env r (discoverer_runs w) 1) [0..<n])
                  @ [Print Stream_did_not_become_available]
              \<and> (\<forall>cmd. Popen cmd \<notin> set (drop (length (trace w)) (trace w2)))"
proof -
  let ?r1 = "r\<lparr>recording := True, thread := Some Pending\<rparr>"
  let ?w1 = "emit Thread_start (emit (Print (Waiting_for_stream (stream_url r))) w)"
  have st: "start r w = (?r1, ?w1)" using assms(1) by (simp add: start_def)
  have same: "failed_attempt env ?r1 = failed_attempt env r"
    by (intro ext) (simp add: failed_attempt_def discoverer_command_def)
  have h2: "max_retries ?r1 = int n" and h3: "time_sleep (retry_interval ?r1) = Return ()"
    using assms(2,3) by simp_all
  have h4: "\<forall>j<n. \<not> fst (attempt_report
                         (discoverer env (discoverer_runs ?w1 + j) (discoverer_command ?r1)))"
    using assms(4) by (simp add: emit_def discoverer_command_def)
  have probe: "is_rtsp_available env ?r1 ?w1 =
           (Return False,
            ?w1\<lparr>trace := trace ?w1 @ concat (map (failed_attempt env r (discoverer_runs ?w1) 1) [0..<n])
                         @ [Print Stream_did_not_become_available],
              discoverer_runs := discoverer_runs ?w1 + n\<rparr>)"
    using probe_all_fail [OF h2 h3 h4] by (simp only: same)
  have no_popen: "Popen cmd \<notin> set (concat (map (failed_attempt env r k 1) [0..<n]))" for cmd k
    by (auto simp: failed_attempt_def)
  have rt: "run_thread env ?r1 ?w1 =
      (?r1\<lparr>thread := Some Finished\<rparr>,
       ?w1\<lparr>trace := trace ?w1 @ concat (map (failed_attempt env r (discoverer_runs ?w1) 1) [0..<n])
                         @ [Print Stream_did_not_become_available],
              discoverer_runs := discoverer_runs ?w1 + n\<rparr>)"
    by (simp add: run_thread_def record_body_def probe)
  show ?thesis
    by (simp only: st prod.case rt) (use no_popen in \<open>simp add: emit_def\<close>)
qed

text \<open>
  C1, the code at a session whose probe fails three times (\<open>max_retries = 3\<close>, the
  inspection tool exits with status 1, times out and raises): after \<open>start()\<close> and the
  worker, \<open>_record\<close> has returned without clearing the \<open>recording\<close> flag, which is still
  set; the \<open>stop()\<close> that follows then prints the stopping line, not a warning, and runs
  the merge, which invokes the concatenation tool.
\<close>

theorem stop_after_failed_probe_merges:
  "recording (fst failed_session)
   \<and> (case stop env_unreachable (fst failed_session) (snd failed_session) of (res, r3, w3) \<Rightarrow>
        res = Return ()
        \<and> drop (length (trace (snd failed_session))) (trace w3) =
            [Print (Stopping_recording ''rtsp://cam/live''),
             Print Merging_segments,
             Run_ffmpeg [''ffmpeg'', ''-f'', ''concat'', ''-safe'', ''0'', ''-i'', ''rec/file_list.txt'',
                         ''-c'', ''copy'', ''rec/final_recording.mp4''],
             Child_stderr ''file_list.txt: Invalid data'',
             Print (Merging_error (CalledProcessError 1
               [''ffmpeg'', ''-f'', ''concat'', ''-safe'', ''0'', ''-i'', ''rec/file_list.txt'',
                ''-c'', ''copy'', ''rec/final_recording.mp4'']))])"
  by (simp add: failed_session_def start_def run_thread_def record_body_def is_rtsp_available_def
      stop_def join_def merge_segments_def merge_command_def merged_output_def file_list_path_def
      path_join_def startswith_def endswith_def suffix_to_prefix time_sleep_def
      env_unreachable_def cam_def init_def world0_def emit_def Let_def
      discoverer_command_def strip_def is_space_def str_in_def lower_def lower_char_def
      sublist_code numeral_3_eq_3)

text \<open>
  C3, the code at a capture process that exits with status 1: after \<open>start()\<close> and the
  worker, the \<open>recording\<close> flag is still set and the trace ends with the line the process
  wrote; no failure line is printed. The pipeline was launched once.
\<close>

theorem capture_failure_keeps_recording:
  "recording (fst capture_session) \<and> thread (fst capture_session) = Some Finished
   \<and> trace (snd capture_session) =
       [Print (Waiting_for_stream ''rtsp://cam/live''), Thread_start,
        Print (Checking_availability 1 3),
        Run_discoverer [''gst-discoverer-1.0'', ''rtsp://cam/live''],
        Print (Stream_available ''Video: H.264''),
        Print (Starting_recording ''rec/recording_2024-05-01_10-00-00.mkv''),
        Popen (split (gst_command_str ''rtsp://cam/live'' ''rec/recording_2024-05-01_10-00-00.mkv'')),
        Print (Stderr_line ''ERROR: pipeline stopped'')]"
  by (simp add: capture_session_def start_def run_thread_def record_body_def is_rtsp_available_def
      run_capture_def stream_logs_def recording_name_def
      path_join_def startswith_def endswith_def suffix_to_prefix
      env_reachable_def cam_def init_def world0_def emit_def Let_def
      discoverer_command_def strip_def is_space_def str_in_def lower_def lower_char_def
      sublist_code numeral_3_eq_3)

section \<open>Properties of the segment merge\<close>

lemma manifest_lines_filter:
  "manifest_lines out files = concat (map (manifest_line out) (filter is_segment files))"
  by (induction files) simp_all

lemma set_listdir: "set (listdir d) = fst ` set d"
  by (simp add: listdir_def)

lemma distinct_listdir: "distinct (listdir d)"
  by (simp add: listdir_def)

lemma map_of_write_file:
  "map_of (write_file name content d) = (map_of d)(name \<mapsto> File content)"
  by (simp add: write_file_def update_conv')

lemma keys_write_file: "fst ` set (write_file name content d) = insert name (fst ` set d)"
  by (simp add: write_file_def dom_update)

lemma not_segment_names:
  "\<not> is_segment ''file_list.txt''"
  "\<not> is_segment ''final_recording.mp4''"
  "\<not> is_segment (recording_name timestamp)"
  by (simp_all add: is_segment_def startswith_def recording_name_def)

lemma recording_name_distinct:
  "recording_name timestamp \<noteq> ''file_list.txt''"
  "recording_name timestamp \<noteq> ''final_recording.mp4''"
  by (simp_all add: recording_name_def)

text \<open>The deletion loop touches segment names only, also when \<open>os.remove\<close> raises.\<close>

lemma remove_segments_frame:
  "\<not> is_segment n \<Longrightarrow> map_of (snd (remove_segments files d)) n = map_of d n"
proof (induction files arbitrary: d)
  case Nil
  show ?case by simp
next
  case (Cons f fs)
  show ?case
  proof (cases "is_segment f")
    case True
    then have "f \<noteq> n" using Cons.prems by auto
    with True Cons show ?thesis
      by (simp add: os_remove_def delete_conv' split: option.splits entry.splits)
  next
    case False
    with Cons show ?thesis by simp
  qed
qed

text \<open>When every listed segment name is a regular file, the loop deletes them all.\<close>

lemma remove_segments_listed:
  "distinct files \<Longrightarrow>
   \<forall>n\<in>set files. is_segment n \<longrightarrow> (\<exists>content. map_of d n = Some (File content)) \<Longrightarrow>
     fst (remove_segments files d) = Return ()
     \<and> (\<forall>n. map_of (snd (remove_segments files d)) n =
              (if n \<in> set files \<and> is_segment n then None else map_of d n))"
proof (induction files arbitrary: d)
  case Nil
  show ?case by simp
next
  case (Cons f fs)
  show ?case
  proof (cases "is_segment f")
    case True
    then obtain content where c: "map_of d f = Some (File content)"
      using Cons.prems(2) by auto
    have dist: "distinct fs" and fresh: "f \<notin> set fs" using Cons.prems(1) by simp_all
    have rest: "\<forall>n\<in>set fs. is_segment n \<longrightarrow>
                  (\<exists>content. map_of (AList.delete f d) n = Some (File content))"
      using Cons.prems(2) fresh by (auto simp: delete_conv')
    have step: "remove_segments (f # fs) d = remove_segments fs (AList.delete f d)"
      using True c by (simp add: os_remove_def)
    show ?thesis
      unfolding step using Cons.IH [OF dist rest] True by (auto simp: delete_conv')
  next
    case False
    with Cons show ?thesis by auto
  qed
qed


lemma remove_listing:
  assumes "\<forall>n. is_segment n \<longrightarrow> map_of d n \<noteq> Some Subdir"
  shows "fst (remove_segments (sort (listdir d)) d) = Return ()
   \<and> (\<forall>n. map_of (snd (remove_segments (sort (listdir d)) d)) n =
            (if is_segment n then None else map_of d n))"
proof -
  have dist: "distinct (sort (listdir d))"
    by (simp add: distinct_listdir)
  have files: "\<forall>n\<in>set (sort (listdir d)). is_segment n \<longrightarrow>
                 (\<exists>content. map_of d n = Some (File content))"
  proof (intro ballI impI)
    fix n assume "n \<in> set (sort (listdir d))" and seg: "is_segment n"
    then have "map_of d n \<noteq> None"
      by (simp add: set_listdir map_of_eq_None_iff)
    then obtain e where e: "map_of d n = Some e"
      by auto
    with assms seg show "\<exists>content. map_of d n = Some (File content)"
      by (cases e) auto
  qed
  from remove_segments_listed [OF dist files]
  show ?thesis by (auto simp: set_listdir map_of_eq_None_iff)
qed

text \<open>
  When a listed segment name is a subdirectory, \<open>os.remove\<close> raises at the first such
  name: the segments before it in the sorted listing are gone, it and the ones after it
  stay.
\<close>

lemma remove_segments_raises:
  "distinct files \<Longrightarrow>
   \<forall>n\<in>set files. is_segment n \<longrightarrow> map_of d n \<noteq> None \<Longrightarrow>
   \<exists>n\<in>set files. is_segment n \<and> map_of d n = Some Subdir \<Longrightarrow>
     fst (remove_segments files d) = Raise IsADirectoryError"
proof (induction files arbitrary: d)
  case Nil
  then show ?case by simp
next
  case (Cons f fs)
  show ?case
  proof (cases "is_segment f")
    case False
    with Cons.prems have "\<exists>n\<in>set fs. is_segment n \<and> map_of d n = Some Subdir"
      by auto
    with Cons False show ?thesis by simp
  next
    case True
    then obtain e where e: "map_of d f = Some e" using Cons.prems(2) by auto
    show ?thesis
    proof (cases e)
      case Subdir
      with True e show ?thesis by (simp add: os_remove_def)
    next
      case (File content)
      have fresh: "f \<notin> set fs" and dist: "distinct fs" using Cons.prems(1) by simp_all
      have present: "\<forall>n\<in>set fs. is_segment n \<longrightarrow> map_of (AList.delete f d) n \<noteq> None"
        using Cons.prems(2) fresh by (auto simp: delete_conv')
      have bad: "\<exists>n\<in>set fs. is_segment n \<and> map_of (AList.delete f d) n = Some Subdir"
        using Cons.prems(3) fresh e File by (auto simp: delete_conv')
      have step: "remove_segments (f # fs) d = remove_segments fs (AList.delete f d)"
        using True e File by (simp add: os_remove_def)
      show ?thesis unfolding step by (rule Cons.IH [OF dist present bad])
    qed
  qed
qed

lemma remove_segments_subdirectory:
  "remove_segments [''segment_001.mp4'', ''segment_002.mp4'', ''segment_003.mp4'']
     [(''segment_001.mp4'', File ''a''), (''segment_002.mp4'', Subdir),
      (''segment_003.mp4'', File ''ccc'')]
   = (Raise IsADirectoryError,
      [(''segment_002.mp4'', Subdir), (''segment_003.mp4'', File ''ccc'')])"
  by (simp add: is_segment_def startswith_def endswith_def suffix_to_prefix os_remove_def
      AList.delete_eq)

text \<open>The segments listed in the manifest are the sorted segment names of the directory.\<close>

lemma listed_segments:
  assumes "sorted segs" "distinct segs" "set segs = {n \<in> fst ` set d. is_segment n}"
  shows "filter is_segment (sort (listdir (write_file ''file_list.txt'' [] d))) = segs"
proof (rule sorted_distinct_set_unique)
  show "sorted (filter is_segment (sort (listdir (write_file ''file_list.txt'' [] d))))"
    by (simp add: sorted_filter [where f = "\<lambda>x. x", simplified])
  show "distinct (filter is_segment (sort (listdir (write_file ''file_list.txt'' [] d))))"
    by (simp add: distinct_listdir)
  show "set (filter is_segment (sort (listdir (write_file ''file_list.txt'' [] d)))) = set segs"
    using assms(3) not_segment_names(1) by (auto simp: set_listdir keys_write_file)
qed (use assms in simp_all)

lemma manifest_content_segments:
  assumes "sorted segs" "distinct segs" "set segs = {n \<in> fst ` set d. is_segment n}"
  shows "manifest_content r d = concat (map (manifest_line (output_dir r)) segs)"
  by (simp add: manifest_content_def manifest_lines_filter listed_segments [OF assms])

lemma map_of_with_manifest:
  "map_of (with_manifest r d) n =
     (if n = ''file_list.txt'' then Some (File (manifest_content r d)) else map_of d n)"
  by (simp add: with_manifest_def map_of_write_file)

text \<open>
  What a merge returns and leaves when the concatenation tool exits, provided that after a
  successful run no segment name is a subdirectory.
\<close>

lemma merge_segments_exit:
  assumes "ffmpeg env (merge_command r) (with_manifest r (dir w)) = Tool_exited rc diag d3"
    and "rc = 0 \<longrightarrow> (\<forall>n. is_segment n \<longrightarrow> map_of d3 n \<noteq> Some Subdir)"
  shows "merge_segments env r w =
     (Return None,
      w\<lparr>trace := trace w @
           [Print Merging_segments, Run_ffmpeg (merge_command r), Child_stderr diag,
            Print (if rc = 0 then Merged_saved (merged_output r)
                   else Merging_error (CalledProcessError rc (merge_command r)))],
        dir := (if rc = 0 then snd (remove_segments (sort (listdir d3)) d3) else d3)\<rparr>)"
proof (cases "rc = 0")
  case True
  obtain res d4 where rm: "remove_segments (sort (listdir d3)) d3 = (res, d4)"
    by (cases "remove_segments (sort (listdir d3)) d3")
  have "res = Return ()" using remove_listing [of d3] assms(2) True rm by simp
  with True rm assms(1) show ?thesis
    by (simp add: merge_segments_def Let_def emit_def)
next
  case False
  with assms(1) show ?thesis
    by (simp add: merge_segments_def Let_def emit_def)
qed

text \<open>The directory a merge leaves, for every outcome of the tool and of the deletion loop.\<close>

lemma merge_segments_dir:
  "dir (snd (merge_segments env r w)) =
     (case ffmpeg env (merge_command r) (with_manifest r (dir w)) of
        Tool_exited rc diag d3 \<Rightarrow>
          if rc = 0 then snd (remove_segments (sort (listdir d3)) d3) else d3
      | Tool_raised e \<Rightarrow> with_manifest r (dir w)
      | Tool_never_exits \<Rightarrow> with_manifest r (dir w))"
proof (cases "ffmpeg env (merge_command r) (with_manifest r (dir w))")
  case (Tool_exited rc diag d3)
  obtain res d4 where rm: "remove_segments (sort (listdir d3)) d3 = (res, d4)"
    by (cases "remove_segments (sort (listdir d3)) d3")
  with Tool_exited show ?thesis
    by (cases res) (simp_all add: merge_segments_def Let_def emit_def)
next
  case (Tool_raised e)
  then show ?thesis
    by (cases e) (simp_all add: merge_segments_def Let_def emit_def)
next
  case Tool_never_exits
  then show ?thesis by (simp add: merge_segments_def Let_def emit_def)
qed


text \<open>
  After a successful run, a segment name that is a subdirectory makes the merge raise.
\<close>

lemma merge_segments_subdirectory:
  assumes "ffmpeg env (merge_command r) (with_manifest r (dir w)) = Tool_exited 0 diag d3"
    and "is_segment m" and "map_of d3 m = Some Subdir"
  shows "fst (merge_segments env r w) = Raise IsADirectoryError"
proof -
  have listed: "m \<in> set (sort (listdir d3))"
    using assms(3) by (auto simp: set_listdir dest: map_of_SomeD intro: rev_image_eqI)
  have present: "\<forall>n\<in>set (sort (listdir d3)). is_segment n \<longrightarrow> map_of d3 n \<noteq> None"
    by (simp add: set_listdir map_of_eq_None_iff)
  have "fst (remove_segments (sort (listdir d3)) d3) = Raise IsADirectoryError"
    using listed assms(2,3)
    by (intro remove_segments_raises present) (auto simp: distinct_listdir)
  then obtain d4 where "remove_segments (sort (listdir d3)) d3 = (Raise IsADirectoryError, d4)"
    by (cases "remove_segments (sort (listdir d3)) d3") simp
  with assms(1) show ?thesis
    by (simp add: merge_segments_def Let_def emit_def)
qed

lemma segment_names:
  "is_segment ''segment_001.mp4''" "is_segment ''segment_002.mp4''" "is_segment ''segment_003.mp4''"
  "is_segment ''segment_004.mp4''" "\<not> is_segment ''notes.txt''"
  by (simp_all add: is_segment_def startswith_def endswith_def suffix_to_prefix)






text \<open>
  C5 (as the code has it). When the concatenation tool exits with a non-zero status having
  changed no file but \<open>final_recording.mp4\<close>, every segment file is as it was, the manifest
  is still there, and the merge returns \<open>None\<close> after printing a merging error made of the
  exit status and the command.
\<close>

theorem merge_failure_keeps_files:
  assumes "ffmpeg env (merge_command r) (with_manifest r (dir w)) = Tool_exited rc diag d3"
    and "rc \<noteq> 0"
    and "\<forall>n. n \<noteq> ''final_recording.mp4'' \<longrightarrow> map_of d3 n = map_of (with_manifest r (dir w)) n"
  shows "fst (merge_segments env r w) = Return None
       \<and> trace (snd (merge_segments env r w)) =
           trace w @ [Print Merging_segments, Run_ffmpeg (merge_command r), Child_stderr diag,
                      Print (Merging_error (CalledProcessError rc (merge_command r)))]
       \<and> (\<forall>n. is_segment n \<longrightarrow> map_of (dir (snd (merge_segments env r w))) n = map_of (dir w) n)
       \<and> map_of (dir (snd (merge_segments env r w))) ''file_list.txt''
           = Some (File (manifest_content r (dir w)))"
proof -
  have seg: "is_segment n \<Longrightarrow> n \<noteq> ''final_recording.mp4'' \<and> n \<noteq> ''file_list.txt''" for n
    using not_segment_names(1,2) by auto
  have exit: "rc = 0 \<longrightarrow> (\<forall>n. is_segment n \<longrightarrow> map_of d3 n \<noteq> Some Subdir)"
    using assms(2) by simp
  show ?thesis
    using assms(2,3) seg
    by (simp add: merge_segments_exit [OF assms(1) exit] map_of_with_manifest)
qed

theorem merge_failure_keeps_files_witness:
  "fst (merge_segments env_unreachable cam three_segments) = Return None
   \<and> map_of (dir (snd (merge_segments env_unreachable cam three_segments))) ''segment_001.mp4''
       = Some (File ''a'')
   \<and> map_of (dir (snd (merge_segments env_unreachable cam three_segments))) ''segment_002.mp4''
       = Some (File ''bb'')
   \<and> map_of (dir (snd (merge_segments env_unreachable cam three_segments))) ''segment_003.mp4''
       = Some (File ''ccc'')
   \<and> map_of (dir (snd (merge_segments env_unreachable cam three_segments))) ''file_list.txt''
       = Some (File (manifest_content cam (dir three_segments)))"
proof -
  have h1: "ffmpeg env_unreachable (merge_command cam) (with_manifest cam (dir three_segments))
              = Tool_exited 1 ''file_list.txt: Invalid data'' (with_manifest cam (dir three_segments))"
    by (simp add: env_unreachable_def)
  have h2: "(1::int) \<noteq> 0" by simp
  have h3: "\<forall>n. n \<noteq> ''final_recording.mp4'' \<longrightarrow>
              map_of (with_manifest cam (dir three_segments)) n
                = map_of (with_manifest cam (dir three_segments)) n"
    by simp
  show ?thesis
    using merge_failure_keeps_files [OF h1 h2 h3] segment_names
    by (simp add: three_segments_def)
qed

text \<open>
  Against C5 as stated: on the example directory the failing merge returns \<open>None\<close>, no error
  value, and the error line it prints holds the exit status and the command; with another
  diagnostic text of the tool the value and the printed lines are the same.
\<close>

theorem merge_error_lacks_diagnostics:
  "fst (merge_segments env_unreachable cam three_segments) = Return None
   \<and> trace (snd (merge_segments env_unreachable cam three_segments)) =
       [Print Merging_segments,
        Run_ffmpeg (merge_command cam),
        Child_stderr ''file_list.txt: Invalid data'',
        Print (Merging_error (CalledProcessError 1 (merge_command cam)))]
   \<and> fst (merge_segments
            (env_unreachable\<lparr>ffmpeg := (\<lambda>args d. Tool_exited 1 ''Permission denied'' d)\<rparr>)
            cam three_segments) = Return None
   \<and> [e \<leftarrow> trace (snd (merge_segments
            (env_unreachable\<lparr>ffmpeg := (\<lambda>args d. Tool_exited 1 ''Permission denied'' d)\<rparr>)
            cam three_segments)). e \<noteq> Child_stderr ''Permission denied''] =
       [Print Merging_segments,
        Run_ffmpeg (merge_command cam),
        Print (Merging_error (CalledProcessError 1 (merge_command cam)))]"
proof -
  have a: "ffmpeg env_unreachable (merge_command cam) (with_manifest cam (dir three_segments))
              = Tool_exited 1 ''file_list.txt: Invalid data'' (with_manifest cam (dir three_segments))"
    by (simp add: env_unreachable_def)
  have b: "ffmpeg (env_unreachable\<lparr>ffmpeg := (\<lambda>args d. Tool_exited 1 ''Permission denied'' d)\<rparr>)
             (merge_command cam) (with_manifest cam (dir three_segments))
              = Tool_exited 1 ''Permission denied'' (with_manifest cam (dir three_segments))"
    by simp
  have exit: "(1::int) = 0 \<longrightarrow>
      (\<forall>n. is_segment n \<longrightarrow> map_of (with_manifest cam (dir three_segments)) n \<noteq> Some Subdir)"
    by simp
  have tr0: "trace three_segments = []" by (simp add: three_segments_def)
  show ?thesis
    by (simp add: merge_segments_exit [OF a exit] merge_segments_exit [OF b exit] tr0)
qed




text \<open>
  C10. When the concatenation tool changes no file but \<open>final_recording.mp4\<close>, a merge
  leaves every file that is neither a segment, nor \<open>file_list.txt\<close>, nor
  \<open>final_recording.mp4\<close> as it was, whatever the outcome of the tool. The capture pipeline's
  file \<open>recording_<timestamp>.mkv\<close> is never a segment: it is left as it was and has no line
  in the manifest, which lists the segment names only.
\<close>

theorem merge_frame:
  assumes "\<forall>rc diag d3.
             ffmpeg env (merge_command r) (with_manifest r (dir w)) = Tool_exited rc diag d3 \<longrightarrow>
             (\<forall>n. n \<noteq> ''final_recording.mp4'' \<longrightarrow> map_of d3 n = map_of (with_manifest r (dir w)) n)"
  shows "(\<forall>n. \<not> is_segment n \<and> n \<noteq> ''file_list.txt'' \<and> n \<noteq> ''final_recording.mp4'' \<longrightarrow>
              map_of (dir (snd (merge_segments env r w))) n = map_of (dir w) n)
       \<and> \<not> is_segment (recording_name timestamp)
       \<and> map_of (dir (snd (merge_segments env r w))) (recording_name timestamp)
           = map_of (dir w) (recording_name timestamp)
       \<and> manifest_content r (dir w) =
           concat (map (manifest_line (output_dir r)) (filter is_segment (sort (listdir (dir w)))))
       \<and> recording_name timestamp \<notin> set (filter is_segment (sort (listdir (dir w))))"
proof -
  have keep: "map_of (dir (snd (merge_segments env r w))) n = map_of (dir w) n"
    if "\<not> is_segment n" "n \<noteq> ''file_list.txt''" "n \<noteq> ''final_recording.mp4''" for n
  proof (cases "ffmpeg env (merge_command r) (with_manifest r (dir w))")
    case (Tool_exited rc diag d3)
    with assms have "map_of d3 n = map_of (with_manifest r (dir w)) n"
      using that(3) by blast
    with Tool_exited that show ?thesis
      by (simp add: merge_segments_dir remove_segments_frame map_of_with_manifest)
  next
    case (Tool_raised e)
    with that show ?thesis by (simp add: merge_segments_dir map_of_with_manifest)
  next
    case Tool_never_exits
    with that show ?thesis by (simp add: merge_segments_dir map_of_with_manifest)
  qed
  have listed: "manifest_content r (dir w) =
      concat (map (manifest_line (output_dir r)) (filter is_segment (sort (listdir (dir w)))))"
    by (rule manifest_content_segments)
       (auto simp: distinct_listdir set_listdir sorted_filter [where f = "\<lambda>x. x", simplified])
  show ?thesis
    using keep [of "recording_name timestamp"] keep listed
    by (simp add: not_segment_names recording_name_distinct)
qed

theorem merge_frame_witness:
  "map_of (dir (snd (merge_segments env_reachable cam three_segments))) ''notes.txt''
     = Some (File ''n'')
   \<and> \<not> is_segment ''recording_2024-05-01_10-00-00.mkv''
   \<and> map_of (dir (snd (merge_segments env_reachable cam three_segments)))
        ''recording_2024-05-01_10-00-00.mkv'' = Some (File ''mkv'')"
proof -
  have h: "\<forall>rc diag d3.
             ffmpeg env_reachable (merge_command cam) (with_manifest cam (dir three_segments))
               = Tool_exited rc diag d3 \<longrightarrow>
             (\<forall>n. n \<noteq> ''final_recording.mp4'' \<longrightarrow>
                  map_of d3 n = map_of (with_manifest cam (dir three_segments)) n)"
    by (auto simp: env_reachable_def map_of_write_file)
  have n: "\<not> is_segment ''notes.txt'' \<and> ''notes.txt'' \<noteq> ''file_list.txt''
           \<and> ''notes.txt'' \<noteq> ''final_recording.mp4''"
    by (simp add: segment_names)
  show ?thesis
    using merge_frame [OF h, of "''2024-05-01_10-00-00''"] n
    by (simp add: recording_name_def three_segments_def)
qed

end
